theory Spec2Isabelle
  imports Main
begin

section \<open>Values, exceptions and the external collaborators\<close>

text \<open>
  The module \<^verbatim>\<open>app/models/user.py\<close> works on loosely typed request data: the values of
  a payload dictionary are whatever the request body carried. The scalar values are
  modelled; \<open>Unset\<close> is the marker that \<^verbatim>\<open>PatchUser\<close> uses as the default of an
  omitted field.

  A Python \<^verbatim>\<open>str\<close> is represented by the bytes of its UTF-8 encoding, so a
  \<^verbatim>\<open>bytes\<close> value and a \<^verbatim>\<open>str\<close> value are both a \<open>string\<close>, \<^verbatim>\<open>s.encode('utf-8')\<close>
  keeps the representation, and \<^verbatim>\<open>b.decode('utf-8')\<close> keeps it when \<open>b\<close> is well-formed
  UTF-8 and raises otherwise. (A \<^verbatim>\<open>str\<close> holding a lone surrogate has no UTF-8 encoding
  and is outside the model.)
\<close>

type_synonym bytes = string

datatype pyval =
    PStr string
  | PInt int
  | PBool bool
  | PNone
  | Unset
    \<comment> \<open>Modelled from the spec: \<^verbatim>\<open>Unset\<close> is imported from \<^verbatim>\<open>app.config\<close>, which does not
        define it in the sources at hand; the spec describes it as a singleton marker
        distinct from null that stands for an omitted optional field.\<close>

text \<open>
  Exceptions are values. \<^verbatim>\<open>raise X(arg) from exc\<close> records \<open>exc\<close> as the cause of the
  new exception; the cause is kept in the model (last argument), so that what an
  exception shows outward (its argument and headers) can be told apart from what it
  retains inside. \<open>LibraryError\<close> stands for any exception raised inside an external
  collaborator (bcrypt, email_validator, the token service, the database session).
\<close>

datatype exn =
    AttributeError
  | TypeError
  | UnicodeDecodeError
  | LibraryError string
  | UnauthorizedException exn_arg "(string \<times> string) list option" "exn option"
  | UnprocessableContentException exn_arg "exn option"
and exn_arg =
    Message string
  | Exc exn

fun exn_message :: "exn \<Rightarrow> exn_arg option" where
  "exn_message (UnauthorizedException a h c) = Some a"
| "exn_message (UnprocessableContentException a c) = Some a"
| "exn_message _ = None"

fun exn_headers :: "exn \<Rightarrow> (string \<times> string) list option" where
  "exn_headers (UnauthorizedException a h c) = h"
| "exn_headers _ = None"

text \<open>The \<^verbatim>\<open>users\<close> table row (class \<^verbatim>\<open>User\<close>); \<^verbatim>\<open>id\<close> comes from \<^verbatim>\<open>BaseModel\<close>.\<close>

record user =
  id :: int
  email :: string
  password :: string
  full_name :: string
  role :: string

text \<open>
  Everything the module calls but does not define is a field of the environment:
  \<^item> \<open>gensalt\<close>: the salt that \<^verbatim>\<open>bcrypt.gensalt()\<close> draws in this call;
  \<^item> \<open>hashpw\<close>, \<open>checkpw\<close>: \<^verbatim>\<open>bcrypt.hashpw\<close> and \<^verbatim>\<open>bcrypt.checkpw\<close>;
  \<^item> \<open>validate_email\<close>: \<^verbatim>\<open>validate_email(x).normalized\<close> of email_validator;
  \<^item> \<open>generate_token\<close>, \<open>verify_token\<close>: \<^verbatim>\<open>AuthService\<close> of this application;
  \<^item> \<open>query_first_by_email\<close>: \<^verbatim>\<open>cls.query.filter_by(email=email).first()\<close>;
  \<^item> \<open>get_one\<close>: \<^verbatim>\<open>cls.get_one(id=user_id)\<close> of \<^verbatim>\<open>BaseModel\<close>.
  Each call either raises (\<open>Inl\<close>) or returns (\<open>Inr\<close>).
\<close>

record env =
  gensalt :: bytes
  hashpw :: "bytes \<Rightarrow> bytes \<Rightarrow> exn + bytes"
  checkpw :: "bytes \<Rightarrow> bytes \<Rightarrow> exn + bool"
  validate_email :: "pyval \<Rightarrow> exn + string"
  generate_token :: "int \<Rightarrow> exn + (string \<times> string)"
  verify_token :: "string \<Rightarrow> exn + int"
  query_first_by_email :: "string \<Rightarrow> exn + user option"
  get_one :: "int \<Rightarrow> exn + user"


section \<open>Python primitives used by the module\<close>

text \<open>\<^verbatim>\<open>a == b\<close> on the modelled values: \<^verbatim>\<open>bool\<close> is a subclass of \<^verbatim>\<open>int\<close>.\<close>

fun py_eq :: "pyval \<Rightarrow> pyval \<Rightarrow> bool" where
  "py_eq (PStr a) (PStr b) = (a = b)"
| "py_eq (PInt i) (PInt j) = (i = j)"
| "py_eq (PBool a) (PBool b) = (a = b)"
| "py_eq (PInt i) (PBool b) = (i = (if b then 1 else 0))"
| "py_eq (PBool b) (PInt i) = (i = (if b then 1 else 0))"
| "py_eq PNone PNone = True"
| "py_eq Unset Unset = True"
| "py_eq _ _ = False"

text \<open>\<^verbatim>\<open>v.encode('utf-8')\<close>: only a \<^verbatim>\<open>str\<close> has the method.\<close>

definition encode_utf8 :: "pyval \<Rightarrow> exn + bytes" where
  "encode_utf8 v = (case v of PStr s \<Rightarrow> Inr s | _ \<Rightarrow> Inl AttributeError)"

text \<open>Well-formed UTF-8 (the strict table: no overlong forms, no surrogates, at most U+10FFFF).\<close>

definition cont_byte :: "char \<Rightarrow> bool" where
  "cont_byte c \<longleftrightarrow> 128 \<le> (of_char c :: nat) \<and> (of_char c :: nat) < 192"

definition second_byte :: "nat \<Rightarrow> char \<Rightarrow> bool" where
  "second_byte lead c \<longleftrightarrow>
     (if lead = 224 then 160 else if lead = 240 then 144 else 128) \<le> (of_char c :: nat) \<and>
     (of_char c :: nat) \<le> (if lead = 237 then 159 else if lead = 244 then 143 else 191)"

fun utf8_valid :: "bytes \<Rightarrow> bool" where
  "utf8_valid [] = True"
| "utf8_valid (a # bs) =
    (let n = (of_char a :: nat) in
     if n < 128 then utf8_valid bs
     else if 194 \<le> n \<and> n < 224 then
       1 \<le> length bs \<and> cont_byte (bs ! 0) \<and> utf8_valid (drop 1 bs)
     else if 224 \<le> n \<and> n < 240 then
       2 \<le> length bs \<and> second_byte n (bs ! 0) \<and> cont_byte (bs ! 1) \<and> utf8_valid (drop 2 bs)
     else if 240 \<le> n \<and> n < 245 then
       3 \<le> length bs \<and> second_byte n (bs ! 0) \<and> cont_byte (bs ! 1) \<and> cont_byte (bs ! 2)
         \<and> utf8_valid (drop 3 bs)
     else False)"

definition decode_utf8 :: "bytes \<Rightarrow> exn + string" where
  "decode_utf8 b = (if utf8_valid b then Inr b else Inl UnicodeDecodeError)"

text \<open>\<^verbatim>\<open>s.split(' ')\<close>: every single space separates; empty pieces are kept.\<close>

fun split_space :: "string \<Rightarrow> string list" where
  "split_space [] = [[]]"
| "split_space (c # cs) =
    (if c = CHR '' '' then [] # split_space cs
     else (case split_space cs of [] \<Rightarrow> [[c]] | w # ws \<Rightarrow> (c # w) # ws))"


section \<open>Class User\<close>

definition hash_password :: "env \<Rightarrow> pyval \<Rightarrow> exn + bytes" where
  "hash_password e pw =
     (let salt = gensalt e in
      case encode_utf8 pw of
        Inl exc \<Rightarrow> Inl exc
      | Inr b \<Rightarrow> hashpw e b salt)"

definition check_password :: "env \<Rightarrow> user \<Rightarrow> pyval \<Rightarrow> exn + bool" where
  "check_password e self pw =
     (case encode_utf8 pw of
        Inl exc \<Rightarrow> Inl exc
      | Inr b \<Rightarrow> checkpw e b (password self))"

text \<open>The body of the \<^verbatim>\<open>try\<close> block of \<^verbatim>\<open>User.login\<close>, then the handler around it.\<close>

definition login_try :: "env \<Rightarrow> string \<Rightarrow> pyval \<Rightarrow> exn + (string \<times> string)" where
  "login_try e em pw =
     (case query_first_by_email e em of
        Inl exc \<Rightarrow> Inl exc
      | Inr None \<Rightarrow> Inl (UnauthorizedException (Message ''User not found'') None None)
      | Inr (Some u) \<Rightarrow>
          (case check_password e u pw of
             Inl exc \<Rightarrow> Inl exc
           | Inr True \<Rightarrow> generate_token e (id u)
           | Inr False \<Rightarrow>
               Inl (UnauthorizedException (Message ''Password is incorrect'') None None)))"

definition login :: "env \<Rightarrow> string \<Rightarrow> pyval \<Rightarrow> exn + (string \<times> string)" where
  "login e em pw =
     (case login_try e em pw of
        Inl exc \<Rightarrow> Inl (UnauthorizedException (Message ''Invalid credentials'') None (Some exc))
      | Inr r \<Rightarrow> Inr r)"

text \<open>\<^verbatim>\<open>User.authenticate\<close>: the \<^verbatim>\<open>match\<close> on the pieces of the header, then the handler.\<close>

definition authenticate_try :: "env \<Rightarrow> string \<Rightarrow> exn + user" where
  "authenticate_try e token =
     (case split_space token of
        [scheme, tok] \<Rightarrow>
          (if scheme = ''Bearer'' then
             (case verify_token e tok of
                Inl exc \<Rightarrow> Inl exc
              | Inr user_id \<Rightarrow> get_one e user_id)
           else Inl (UnauthorizedException (Message ''Invalid token'') None None))
      | _ \<Rightarrow> Inl (UnauthorizedException (Message ''Invalid token'') None None))"

definition authenticate :: "env \<Rightarrow> string \<Rightarrow> exn + user" where
  "authenticate e token =
     (case authenticate_try e token of
        Inl exc \<Rightarrow>
          Inl (UnauthorizedException (Message ''Invalid Token'')
                 (Some [(''WWW-Authenticate'', ''bearer'')]) (Some exc))
      | Inr u \<Rightarrow> Inr u)"


section \<open>The request and response dataclasses\<close>

record UserResponse =
  email :: string
  full_name :: string
  role :: string

text \<open>Construction of a \<^verbatim>\<open>UserResponse\<close>: the fields are set, then \<^verbatim>\<open>__post_init__\<close> runs.\<close>

definition UserResponse_init :: "env \<Rightarrow> string \<Rightarrow> string \<Rightarrow> string \<Rightarrow> exn + UserResponse" where
  "UserResponse_init e em fn r =
     (case validate_email e (PStr em) of
        Inl exc \<Rightarrow> Inl (UnprocessableContentException (Exc exc) (Some exc))
      | Inr n \<Rightarrow> Inr \<lparr>email = n, full_name = fn, role = r\<rparr>)"

record PatchUser =
  full_name :: pyval

record PatchUserPassword =
  old_password :: pyval
  new_password :: pyval

record PatchUserEmail =
  email :: pyval

text \<open>
  \<^verbatim>\<open>PatchUser(**data)\<close>: the generated \<^verbatim>\<open>__init__\<close> takes the one keyword \<^verbatim>\<open>full_name\<close>,
  with default \<^verbatim>\<open>Unset\<close>; any other keyword is a \<^verbatim>\<open>TypeError\<close>.
\<close>

definition PatchUser_init :: "(string \<rightharpoonup> pyval) \<Rightarrow> exn + PatchUser" where
  "PatchUser_init kwargs =
     (if dom kwargs \<subseteq> {''full_name''} then
        Inr \<lparr>full_name = (case kwargs ''full_name'' of None \<Rightarrow> Unset | Some v \<Rightarrow> v)\<rparr>
      else Inl TypeError)"

definition PatchUserPassword_init :: "env \<Rightarrow> pyval \<Rightarrow> pyval \<Rightarrow> exn + PatchUserPassword" where
  "PatchUserPassword_init e old new =
     (if py_eq new old then
        Inl (UnprocessableContentException
               (Message ''New password must be different from the old password'') None)
      else
        (case hash_password e new of
           Inl exc \<Rightarrow>
             Inl (UnprocessableContentException (Message ''Passwords are invalid'') (Some exc))
         | Inr h \<Rightarrow>
             (case decode_utf8 h of
                Inl exc \<Rightarrow>
                  Inl (UnprocessableContentException (Message ''Passwords are invalid'')
                         (Some exc))
              | Inr s \<Rightarrow> Inr \<lparr>old_password = old, new_password = PStr s\<rparr>)))"

definition PatchUserEmail_init :: "env \<Rightarrow> pyval \<Rightarrow> exn + PatchUserEmail" where
  "PatchUserEmail_init e em =
     (case validate_email e em of
        Inl exc \<Rightarrow> Inl (UnprocessableContentException (Exc exc) (Some exc))
      | Inr n \<Rightarrow> Inr \<lparr>email = PStr n\<rparr>)"

text \<open>\<^verbatim>\<open>vars(obj)\<close> of each dataclass: the dictionary of its fields.\<close>

definition vars_PatchUser :: "PatchUser \<Rightarrow> (string \<rightharpoonup> pyval)" where
  "vars_PatchUser p = [''full_name'' \<mapsto> PatchUser.full_name p]"

definition vars_PatchUserPassword :: "PatchUserPassword \<Rightarrow> (string \<rightharpoonup> pyval)" where
  "vars_PatchUserPassword p =
     [''old_password'' \<mapsto> old_password p, ''new_password'' \<mapsto> new_password p]"

definition vars_PatchUserEmail :: "PatchUserEmail \<Rightarrow> (string \<rightharpoonup> pyval)" where
  "vars_PatchUserEmail p = [''email'' \<mapsto> PatchUserEmail.email p]"


section \<open>get_patch_fields\<close>

text \<open>
  The \<^verbatim>\<open>match\<close> statement on the payload. A mapping pattern matches when the payload has
  the listed keys, whatever else it has; the cases are tried in order; \<^verbatim>\<open>case {}\<close>
  matches every dictionary, so for a dictionary the \<^verbatim>\<open>raise\<close> after the \<^verbatim>\<open>match\<close> is
  never reached.
\<close>

datatype patch_case =
    EmailCase pyval
  | PasswordCase pyval pyval
  | GenericCase

definition match_data :: "(string \<rightharpoonup> pyval) \<Rightarrow> patch_case" where
  "match_data data =
     (case data ''email'' of
        Some em \<Rightarrow> EmailCase em
      | None \<Rightarrow>
          (case data ''old_password'' of
             Some old \<Rightarrow>
               (case data ''new_password'' of
                  Some new \<Rightarrow> PasswordCase old new
                | None \<Rightarrow> GenericCase)
           | None \<Rightarrow> GenericCase))"

definition email_patch :: "env \<Rightarrow> pyval \<Rightarrow> exn + (string \<rightharpoonup> pyval)" where
  "email_patch e em =
     (case PatchUserEmail_init e em of
        Inl exc \<Rightarrow> Inl exc
      | Inr p \<Rightarrow> Inr (vars_PatchUserEmail p))"

definition password_patch :: "env \<Rightarrow> pyval \<Rightarrow> pyval \<Rightarrow> exn + (string \<rightharpoonup> pyval)" where
  "password_patch e old new =
     (case PatchUserPassword_init e old new of
        Inl exc \<Rightarrow> Inl exc
      | Inr p \<Rightarrow> Inr (vars_PatchUserPassword p))"

text \<open>The dictionary comprehension keeps the items whose value \<^verbatim>\<open>is not Unset\<close>.\<close>

definition not_unset_items :: "(string \<rightharpoonup> pyval) \<Rightarrow> (string \<rightharpoonup> pyval)" where
  "not_unset_items m =
     (\<lambda>k. case m k of None \<Rightarrow> None | Some v \<Rightarrow> if v = Unset then None else Some v)"

definition generic_patch :: "(string \<rightharpoonup> pyval) \<Rightarrow> exn + (string \<rightharpoonup> pyval)" where
  "generic_patch data =
     (case PatchUser_init data of
        Inl exc \<Rightarrow>
          (if exc = TypeError then
             Inl (UnprocessableContentException (Message ''Invalid data'') (Some exc))
           else Inl exc)
      | Inr p \<Rightarrow> Inr (not_unset_items (vars_PatchUser p)))"

definition get_patch_fields :: "env \<Rightarrow> (string \<rightharpoonup> pyval) \<Rightarrow> exn + (string \<rightharpoonup> pyval)" where
  "get_patch_fields e data =
     (case match_data data of
        EmailCase em \<Rightarrow> email_patch e em
      | PasswordCase old new \<Rightarrow> password_patch e old new
      | GenericCase \<Rightarrow> generic_patch data)"


section \<open>A sample environment\<close>

text \<open>
  A small environment on which the model can be run: one stored user, a toy hash that
  prefixes the salt, a validator that accepts a string with an \<open>@\<close>, and tokens that
  spell the user id. It stands in for the external libraries on concrete inputs only.
\<close>

definition sample_user :: user where
  "sample_user =
     \<lparr>id = 7, email = ''real@example.com'', password = ''NaCl$secret'',
      full_name = ''Real User'', role = ''user''\<rparr>"

definition sample_env :: env where
  "sample_env =
     \<lparr>gensalt = ''NaCl'',
      hashpw = (\<lambda>pw salt. Inr (salt @ ''$'' @ pw)),
      checkpw = (\<lambda>pw hashed. Inr (hashed = ''NaCl$'' @ pw)),
      validate_email = (\<lambda>v. case v of
          PStr s \<Rightarrow> if CHR ''@'' \<in> set s then Inr s else Inl (LibraryError ''EmailNotValidError'')
        | _ \<Rightarrow> Inl TypeError),
      generate_token = (\<lambda>i. if i = 7 then Inr (''token-7'', ''2030-01-01'')
                            else Inl (LibraryError ''token'')),
      verify_token = (\<lambda>t. if t = ''token-7'' then Inr 7 else Inl (LibraryError ''InvalidTokenError'')),
      query_first_by_email = (\<lambda>em. Inr (if em = ''real@example.com'' then Some sample_user else None)),
      get_one = (\<lambda>i. if i = 7 then Inr sample_user else Inl (LibraryError ''NoResultFound''))\<rparr>"


section \<open>Facts about the primitives\<close>

lemma split_space_not_Nil: "split_space s \<noteq> []"
  by (induction s) (auto split: list.splits)

lemma split_space_one: "split_space s = [w] \<longleftrightarrow> s = w \<and> CHR '' '' \<notin> set w"
proof (induction s arbitrary: w)
  case Nil
  then show ?case by auto
next
  case (Cons c cs)
  show ?case
  proof (cases "c = CHR '' ''")
    case True
    then show ?thesis by (auto simp: split_space_not_Nil)
  next
    case False
    then show ?thesis using Cons[of "tl w"]
      by (cases w) (auto split: list.splits simp: split_space_not_Nil)
  qed
qed

text \<open>Exactly two pieces: one space in the string, none in either piece.\<close>

lemma split_space_two:
  "split_space s = [a, b] \<longleftrightarrow>
     s = a @ CHR '' '' # b \<and> CHR '' '' \<notin> set a \<and> CHR '' '' \<notin> set b"
proof (induction s arbitrary: a)
  case Nil
  then show ?case by auto
next
  case (Cons c cs)
  show ?case
  proof (cases "c = CHR '' ''")
    case True
    then show ?thesis by (cases a) (auto simp: split_space_one)
  next
    case False
    then show ?thesis using Cons[of "tl a"]
      by (cases a) (auto split: list.splits simp: split_space_not_Nil)
  qed
qed

lemma map_upd_key_neq: "k \<noteq> k' \<Longrightarrow> [k \<mapsto> v] \<noteq> [k' \<mapsto> v']"
proof
  assume "k \<noteq> k'" and "[k \<mapsto> v] = [k' \<mapsto> v']"
  then have "[k \<mapsto> v] k = [k' \<mapsto> v'] k" by simp
  with \<open>k \<noteq> k'\<close> show False by simp
qed

lemma two_keys_not_email:
  "[''old_password'' \<mapsto> a, ''new_password'' \<mapsto> b] \<noteq> [''email'' \<mapsto> c]"
proof
  assume "[''old_password'' \<mapsto> a, ''new_password'' \<mapsto> b] = [''email'' \<mapsto> c]"
  then have "[''old_password'' \<mapsto> a, ''new_password'' \<mapsto> b] ''email'' =
      [''email'' \<mapsto> c] ''email''"
    by (rule arg_cong)
  then show False by simp
qed

lemma singleton_map_eq: "[k \<mapsto> v] = [k \<mapsto> v'] \<longleftrightarrow> v = v'"
  by (metis fun_upd_same option.inject)


section \<open>The three branches of get_patch_fields\<close>

lemma match_data_email: "data ''email'' = Some em \<Longrightarrow> match_data data = EmailCase em"
  by (simp add: match_data_def)

lemma match_data_password:
  "data ''email'' = None \<Longrightarrow> data ''old_password'' = Some old \<Longrightarrow>
   data ''new_password'' = Some new \<Longrightarrow> match_data data = PasswordCase old new"
  by (simp add: match_data_def)

lemma match_data_generic:
  "data ''email'' = None \<Longrightarrow> data ''old_password'' = None \<or> data ''new_password'' = None \<Longrightarrow>
   match_data data = GenericCase"
  by (auto simp: match_data_def split: option.splits)

lemma exact_password_keys:
  assumes "dom data = {''old_password'', ''new_password''}"
  shows "data ''email'' = None" and "\<exists>old. data ''old_password'' = Some old"
    and "\<exists>new. data ''new_password'' = Some new"
proof -
  have "''email'' \<notin> dom data" using assms by simp
  then show "data ''email'' = None" by blast
  have "''old_password'' \<in> dom data" using assms by simp
  then show "\<exists>old. data ''old_password'' = Some old" by blast
  have "''new_password'' \<in> dom data" using assms by simp
  then show "\<exists>new. data ''new_password'' = Some new" by blast
qed

lemma email_patch_cases:
  "email_patch e em =
     (case validate_email e em of
        Inl exc \<Rightarrow> Inl (UnprocessableContentException (Exc exc) (Some exc))
      | Inr n \<Rightarrow> Inr [''email'' \<mapsto> PStr n])"
  by (simp add: email_patch_def PatchUserEmail_init_def vars_PatchUserEmail_def
      split: sum.splits)

lemma password_patch_cases:
  "password_patch e old new =
     (if py_eq new old then
        Inl (UnprocessableContentException
               (Message ''New password must be different from the old password'') None)
      else case hash_password e new of
        Inl exc \<Rightarrow>
          Inl (UnprocessableContentException (Message ''Passwords are invalid'') (Some exc))
      | Inr h \<Rightarrow>
          if utf8_valid h then Inr [''old_password'' \<mapsto> old, ''new_password'' \<mapsto> PStr h]
          else Inl (UnprocessableContentException (Message ''Passwords are invalid'')
                      (Some UnicodeDecodeError)))"
  by (simp add: password_patch_def PatchUserPassword_init_def decode_utf8_def
      vars_PatchUserPassword_def split: sum.splits)

lemma generic_patch_cases:
  "generic_patch data =
     (if dom data \<subseteq> {''full_name''} then
        Inr (case data ''full_name'' of
               None \<Rightarrow> Map.empty
             | Some v \<Rightarrow> if v = Unset then Map.empty else [''full_name'' \<mapsto> v])
      else Inl (UnprocessableContentException (Message ''Invalid data'') (Some TypeError)))"
  by (auto simp: generic_patch_def PatchUser_init_def vars_PatchUser_def not_unset_items_def
      fun_eq_iff split: option.splits)

lemma generic_patch_password_keys:
  assumes "dom data = {''old_password'', ''new_password''}"
  shows "generic_patch data =
    Inl (UnprocessableContentException (Message ''Invalid data'') (Some TypeError))"
proof -
  have "\<not> dom data \<subseteq> {''full_name''}" using assms by auto
  then show ?thesis by (simp add: generic_patch_def PatchUser_init_def)
qed

lemma password_patch_not_email: "password_patch e old new \<noteq> Inr [''email'' \<mapsto> c]"
  by (simp add: password_patch_cases two_keys_not_email split: sum.splits)

lemma generic_patch_not_email: "generic_patch data \<noteq> Inr [''email'' \<mapsto> c]"
proof -
  have "Map.empty \<noteq> [''email'' \<mapsto> c]" by (metis map_upd_nonempty)
  moreover have "\<And>v. [''full_name'' \<mapsto> v] \<noteq> [''email'' \<mapsto> c]"
    by (rule map_upd_key_neq) simp
  ultimately show ?thesis
    by (simp add: generic_patch_cases split: option.splits)
qed

lemma authenticate_try_Inr:
  "authenticate_try e h = Inr u \<longleftrightarrow>
     (\<exists>tok uid. h = ''Bearer '' @ tok \<and> CHR '' '' \<notin> set tok \<and>
        verify_token e tok = Inr uid \<and> get_one e uid = Inr u)"
proof
  assume "authenticate_try e h = Inr u"
  then obtain tok where sp: "split_space h = [''Bearer'', tok]"
    and r: "(case verify_token e tok of Inl exc \<Rightarrow> Inl exc | Inr i \<Rightarrow> get_one e i) = Inr u"
    unfolding authenticate_try_def
    by (auto split: list.splits if_splits)
  from sp have "h = ''Bearer '' @ tok" "CHR '' '' \<notin> set tok"
    by (simp_all add: split_space_two)
  moreover from r obtain uid where "verify_token e tok = Inr uid" "get_one e uid = Inr u"
    by (auto split: sum.splits)
  ultimately show "\<exists>tok uid. h = ''Bearer '' @ tok \<and> CHR '' '' \<notin> set tok \<and>
        verify_token e tok = Inr uid \<and> get_one e uid = Inr u" by blast
next
  assume "\<exists>tok uid. h = ''Bearer '' @ tok \<and> CHR '' '' \<notin> set tok \<and>
        verify_token e tok = Inr uid \<and> get_one e uid = Inr u"
  then obtain tok uid where h: "h = ''Bearer '' @ tok" "CHR '' '' \<notin> set tok"
     and v: "verify_token e tok = Inr uid" "get_one e uid = Inr u" by blast
  have "h = ''Bearer'' @ CHR '' '' # tok" using h by simp
  then have "split_space h = [''Bearer'', tok]"
    using h(2) split_space_two[of h "''Bearer''" tok] by simp
  then show "authenticate_try e h = Inr u"
    using v by (simp add: authenticate_try_def)
qed


section \<open>Password patches\<close>

text \<open>
  Claim C1, as amended. For a payload whose key set is exactly
  \<open>{old_password, new_password}\<close>: when the new password equals the old one,
  \<open>get_patch_fields\<close> fails with \<open>UnprocessableContentException\<close> and the message
  "New password must be different from the old password". Otherwise the new password is
  hashed; when hashing returns \<open>h\<close> (well-formed UTF-8) the result is exactly the
  dictionary \<open>{old_password: old, new_password: h}\<close>, the dataclass's own two fields with
  the old password unchanged; when hashing raises, the failure is
  \<open>UnprocessableContentException\<close> with the message "Passwords are invalid".
\<close>

theorem password_patch_result:
  assumes "dom data = {''old_password'', ''new_password''}"
  shows "\<exists>old new. data ''old_password'' = Some old \<and> data ''new_password'' = Some new \<and>
     (py_eq new old \<longrightarrow>
        get_patch_fields e data =
          Inl (UnprocessableContentException
                 (Message ''New password must be different from the old password'') None)) \<and>
     (\<not> py_eq new old \<longrightarrow>
        (\<forall>h. hash_password e new = Inr h \<and> utf8_valid h \<longrightarrow>
           get_patch_fields e data =
             Inr [''old_password'' \<mapsto> old, ''new_password'' \<mapsto> PStr h]) \<and>
        (\<forall>exc. hash_password e new = Inl exc \<longrightarrow>
           get_patch_fields e data =
             Inl (UnprocessableContentException (Message ''Passwords are invalid'')
                    (Some exc))))"
proof -
  from exact_password_keys[OF assms] obtain old new where
    d: "data ''email'' = None" "data ''old_password'' = Some old"
       "data ''new_password'' = Some new"
    by blast
  have g: "get_patch_fields e data = password_patch e old new"
    by (simp add: get_patch_fields_def match_data_password[OF d])
  show ?thesis
    using d(2,3) by (simp add: g password_patch_cases)
qed

text \<open>
  The theorem at two payloads in the sample environment: a change from "hunter2" to
  "s3cret", and a change that repeats the old password.
\<close>

theorem password_patch_result_witness:
  "get_patch_fields sample_env
     [''old_password'' \<mapsto> PStr ''hunter2'', ''new_password'' \<mapsto> PStr ''s3cret''] =
   Inr [''old_password'' \<mapsto> PStr ''hunter2'', ''new_password'' \<mapsto> PStr ''NaCl$s3cret'']
   \<and> get_patch_fields sample_env
     [''old_password'' \<mapsto> PStr ''hunter2'', ''new_password'' \<mapsto> PStr ''hunter2''] =
       Inl (UnprocessableContentException
              (Message ''New password must be different from the old password'') None)"
proof -
  let ?d = "[''old_password'' \<mapsto> PStr ''hunter2'', ''new_password'' \<mapsto> PStr ''s3cret'']"
  let ?d2 = "[''old_password'' \<mapsto> PStr ''hunter2'', ''new_password'' \<mapsto> PStr ''hunter2'']"
  have k: "dom ?d = {''old_password'', ''new_password''}" by auto
  have k2: "dom ?d2 = {''old_password'', ''new_password''}" by auto
  have h: "hash_password sample_env (PStr ''s3cret'') = Inr ''NaCl$s3cret''"
    by (simp add: hash_password_def encode_utf8_def sample_env_def)
  have v: "utf8_valid ''NaCl$s3cret''" by simp
  show ?thesis
    using password_patch_result[OF k, of sample_env] password_patch_result[OF k2, of sample_env]
      h v
    by simp
qed

text \<open>
  Against C1 as stated: the result of a password change is not \<open>{password: hash}\<close>. It
  has the keys \<open>old_password\<close> and \<open>new_password\<close>, and the old password is in it as
  it was sent.
\<close>

theorem password_patch_not_password_key:
  "get_patch_fields sample_env
     [''old_password'' \<mapsto> PStr ''hunter2'', ''new_password'' \<mapsto> PStr ''s3cret''] =
   Inr [''old_password'' \<mapsto> PStr ''hunter2'', ''new_password'' \<mapsto> PStr ''NaCl$s3cret'']
   \<and> [''old_password'' \<mapsto> PStr ''hunter2'', ''new_password'' \<mapsto> PStr ''NaCl$s3cret'']
        \<noteq> [''password'' \<mapsto> PStr ''NaCl$s3cret'']
   \<and> [''old_password'' \<mapsto> PStr ''hunter2'', ''new_password'' \<mapsto> PStr ''NaCl$s3cret'']
        ''old_password'' = Some (PStr ''hunter2'')"
proof -
  let ?out = "[''old_password'' \<mapsto> PStr ''hunter2'', ''new_password'' \<mapsto> PStr ''NaCl$s3cret'']"
  have "get_patch_fields sample_env
     [''old_password'' \<mapsto> PStr ''hunter2'', ''new_password'' \<mapsto> PStr ''s3cret''] = Inr ?out"
    by (simp add: get_patch_fields_def match_data_def password_patch_def
        PatchUserPassword_init_def hash_password_def encode_utf8_def decode_utf8_def
        vars_PatchUserPassword_def sample_env_def)
  moreover have "?out \<noteq> [''password'' \<mapsto> PStr ''NaCl$s3cret'']"
  proof
    assume "?out = [''password'' \<mapsto> PStr ''NaCl$s3cret'']"
    then have "?out ''password'' = [''password'' \<mapsto> PStr ''NaCl$s3cret''] ''password''"
      by (rule arg_cong)
    then show False by simp
  qed
  ultimately show ?thesis by simp
qed

text \<open>
  Claim C9, as amended. Resolving a password change consults no stored user and no
  stored hash: for a payload with the keys \<open>old_password\<close> and \<open>new_password\<close> and no
  key \<open>email\<close>, whose two values differ, two environments that agree on the salt and on
  \<open>hashpw\<close> give the same outcome, whatever their user table, their \<open>checkpw\<close> and
  their token service are. The outcome is a success \<open>{old_password: old, new_password: h}\<close>
  when hashing the new password returns \<open>h\<close>, and the failure "Passwords are invalid"
  when hashing raises; the old password is returned as sent and is never checked.
\<close>

theorem password_patch_ignores_store:
  assumes "data ''email'' = None"
    and "data ''old_password'' = Some old" and "data ''new_password'' = Some new"
    and "\<not> py_eq new old"
    and "gensalt e1 = gensalt e2" and "hashpw e1 = hashpw e2"
  shows "get_patch_fields e1 data = get_patch_fields e2 data
    \<and> (\<forall>h. hash_password e1 new = Inr h \<and> utf8_valid h \<longrightarrow>
          get_patch_fields e1 data =
            Inr [''old_password'' \<mapsto> old, ''new_password'' \<mapsto> PStr h])
    \<and> (\<forall>exc. hash_password e1 new = Inl exc \<longrightarrow>
          get_patch_fields e1 data =
            Inl (UnprocessableContentException (Message ''Passwords are invalid'')
                   (Some exc)))"
proof -
  have "\<And>b s. hashpw e1 b s = hashpw e2 b s" using assms(6) by simp
  then have h: "hash_password e1 new = hash_password e2 new"
    using assms(5) by (simp add: hash_password_def split: sum.splits)
  have g: "get_patch_fields e1 data = password_patch e1 old new"
      "get_patch_fields e2 data = password_patch e2 old new"
    by (simp_all add: get_patch_fields_def match_data_password[OF assms(1-3)])
  show ?thesis using assms(4) by (simp add: g password_patch_cases h)
qed

text \<open>
  The theorem at a wrong guess of the old password ("guess" where the stored hash is of
  "secret"), in the sample environment and in one with an empty user table and a
  \<open>checkpw\<close> that accepts nothing.
\<close>

theorem password_patch_ignores_store_witness:
  "get_patch_fields sample_env
     [''old_password'' \<mapsto> PStr ''guess'', ''new_password'' \<mapsto> PStr ''s3cret''] =
   get_patch_fields
     (sample_env\<lparr>checkpw := (\<lambda>pw hashed. Inr False),
                 query_first_by_email := (\<lambda>em. Inr None),
                 get_one := (\<lambda>i. Inl (LibraryError ''NoResultFound''))\<rparr>)
     [''old_password'' \<mapsto> PStr ''guess'', ''new_password'' \<mapsto> PStr ''s3cret'']
   \<and> get_patch_fields sample_env
     [''old_password'' \<mapsto> PStr ''guess'', ''new_password'' \<mapsto> PStr ''s3cret''] =
     Inr [''old_password'' \<mapsto> PStr ''guess'', ''new_password'' \<mapsto> PStr ''NaCl$s3cret'']"
proof -
  let ?d = "[''old_password'' \<mapsto> PStr ''guess'', ''new_password'' \<mapsto> PStr ''s3cret'']"
  let ?e2 = "sample_env\<lparr>checkpw := (\<lambda>pw hashed. Inr False),
                 query_first_by_email := (\<lambda>em. Inr None),
                 get_one := (\<lambda>i. Inl (LibraryError ''NoResultFound''))\<rparr>"
  have a: "?d ''email'' = None" "?d ''old_password'' = Some (PStr ''guess'')"
    "?d ''new_password'' = Some (PStr ''s3cret'')" by simp_all
  have n: "\<not> py_eq (PStr ''s3cret'') (PStr ''guess'')" by simp
  have s: "gensalt sample_env = gensalt ?e2" "hashpw sample_env = hashpw ?e2" by simp_all
  have h: "hash_password sample_env (PStr ''s3cret'') = Inr ''NaCl$s3cret''"
    by (simp add: hash_password_def encode_utf8_def sample_env_def)
  have v: "utf8_valid ''NaCl$s3cret''" by simp
  show ?thesis
    using password_patch_ignores_store
      [where data = ?d and ?e1.0 = sample_env and ?e2.0 = ?e2, OF a n s] h v
    by blast
qed

text \<open>
  Against C9 as stated: two values that differ do not make the resolution succeed. With
  the numbers 1 and 2 as passwords, \<^verbatim>\<open>new_password.encode\<close> raises inside the
  \<^verbatim>\<open>try\<close> and the handler turns it into "Passwords are invalid".
\<close>

theorem password_patch_can_fail:
  "\<not> py_eq (PInt 2) (PInt 1) \<and>
   get_patch_fields sample_env [''old_password'' \<mapsto> PInt 1, ''new_password'' \<mapsto> PInt 2] =
     Inl (UnprocessableContentException (Message ''Passwords are invalid'')
            (Some AttributeError))"
  by (simp add: get_patch_fields_def match_data_def password_patch_def
      PatchUserPassword_init_def hash_password_def encode_utf8_def)


section \<open>Email patches\<close>

text \<open>
  Claim C2, as amended. \<open>get_patch_fields\<close> produces \<open>{email: n}\<close> exactly when the
  payload has the key \<open>email\<close> and the validator returns the normalized address \<open>n\<close>
  for its value, whatever other keys the payload has; when the validator raises, the
  failure is \<open>UnprocessableContentException\<close> carrying the validator's exception.
\<close>

theorem email_patch_shape:
  "(get_patch_fields e data = Inr [''email'' \<mapsto> PStr n] \<longleftrightarrow>
      (\<exists>em. data ''email'' = Some em \<and> validate_email e em = Inr n))
   \<and> (\<forall>em exc. data ''email'' = Some em \<and> validate_email e em = Inl exc \<longrightarrow>
        get_patch_fields e data = Inl (UnprocessableContentException (Exc exc) (Some exc)))"
proof (cases "match_data data")
  case (EmailCase em)
  then have d: "data ''email'' = Some em"
    by (auto simp: match_data_def split: option.splits)
  have g: "get_patch_fields e data = email_patch e em"
    by (simp add: get_patch_fields_def EmailCase)
  show ?thesis
    by (auto simp: g d email_patch_cases singleton_map_eq split: sum.splits)
next
  case (PasswordCase old new)
  then have d: "data ''email'' = None"
    by (auto simp: match_data_def split: option.splits)
  have g: "get_patch_fields e data = password_patch e old new"
    by (simp add: get_patch_fields_def PasswordCase)
  show ?thesis by (simp add: g d password_patch_not_email)
next
  case GenericCase
  then have d: "data ''email'' = None"
    by (auto simp: match_data_def split: option.splits)
  have g: "get_patch_fields e data = generic_patch data"
    by (simp add: get_patch_fields_def GenericCase)
  show ?thesis by (simp add: g d generic_patch_not_email)
qed

text \<open>The theorem at a valid and at a malformed address.\<close>

theorem email_patch_shape_witness:
  "get_patch_fields sample_env [''email'' \<mapsto> PStr ''user@gmail.com''] =
     Inr [''email'' \<mapsto> PStr ''user@gmail.com'']
   \<and> get_patch_fields sample_env [''email'' \<mapsto> PStr ''nobody''] =
     Inl (UnprocessableContentException (Exc (LibraryError ''EmailNotValidError''))
            (Some (LibraryError ''EmailNotValidError'')))"
proof -
  let ?d = "[''email'' \<mapsto> PStr ''user@gmail.com'']"
  let ?d2 = "[''email'' \<mapsto> PStr ''nobody'']"
  have a: "?d ''email'' = Some (PStr ''user@gmail.com'')"
    and v: "validate_email sample_env (PStr ''user@gmail.com'') = Inr ''user@gmail.com''"
    by (simp_all add: sample_env_def)
  have a2: "?d2 ''email'' = Some (PStr ''nobody'')"
    and v2: "validate_email sample_env (PStr ''nobody'') =
      Inl (LibraryError ''EmailNotValidError'')"
    by (simp_all add: sample_env_def)
  show ?thesis
    using email_patch_shape[where data = ?d and e = sample_env and n = "''user@gmail.com''"]
      email_patch_shape[where data = ?d2 and e = sample_env] a v a2 v2
    by blast
qed

text \<open>
  Against C2 as stated: a payload with the key \<open>email\<close> and a further, unknown key is
  an email patch and succeeds; the extra key is dropped.
\<close>

theorem email_with_extra_keys_accepted:
  "get_patch_fields sample_env
     [''email'' \<mapsto> PStr ''user@gmail.com'', ''nickname'' \<mapsto> PStr ''neo''] =
   Inr [''email'' \<mapsto> PStr ''user@gmail.com'']
   \<and> dom [''email'' \<mapsto> PStr ''user@gmail.com'', ''nickname'' \<mapsto> PStr ''neo''] \<noteq> {''email''}"
proof -
  have "get_patch_fields sample_env
     [''email'' \<mapsto> PStr ''user@gmail.com'', ''nickname'' \<mapsto> PStr ''neo''] =
   Inr [''email'' \<mapsto> PStr ''user@gmail.com'']"
    by (simp add: get_patch_fields_def match_data_def email_patch_def PatchUserEmail_init_def
        vars_PatchUserEmail_def sample_env_def)
  moreover have
    "dom [''email'' \<mapsto> PStr ''user@gmail.com'', ''nickname'' \<mapsto> PStr ''neo''] \<noteq> {''email''}"
    by auto
  ultimately show ?thesis by simp
qed


section \<open>Dispatch order and the generic patch\<close>

text \<open>
  Claim C7. The cases of \<open>get_patch_fields\<close> are tried in a fixed order: a payload with
  the key \<open>email\<close> is an email patch; failing that, a payload with the keys
  \<open>old_password\<close> and \<open>new_password\<close> is a password patch; everything else is a
  generic patch. In particular a payload whose key set is exactly
  \<open>{old_password, new_password}\<close> takes the password branch, and its outcome is never
  the one the generic branch would give.
\<close>

theorem dispatch_order:
  "(\<forall>em. data ''email'' = Some em \<longrightarrow> get_patch_fields e data = email_patch e em)
   \<and> (\<forall>old new. data ''email'' = None \<and> data ''old_password'' = Some old \<and>
         data ''new_password'' = Some new \<longrightarrow>
         get_patch_fields e data = password_patch e old new)
   \<and> (data ''email'' = None \<and> (data ''old_password'' = None \<or> data ''new_password'' = None) \<longrightarrow>
         get_patch_fields e data = generic_patch data)
   \<and> (dom data = {''old_password'', ''new_password''} \<longrightarrow>
        (\<exists>old new. data ''old_password'' = Some old \<and> data ''new_password'' = Some new \<and>
           match_data data = PasswordCase old new \<and>
           get_patch_fields e data = password_patch e old new \<and>
           get_patch_fields e data \<noteq> generic_patch data))"
proof (intro conjI allI impI)
  fix em assume "data ''email'' = Some em"
  then show "get_patch_fields e data = email_patch e em"
    by (simp add: get_patch_fields_def match_data_email)
next
  fix old new
  assume "data ''email'' = None \<and> data ''old_password'' = Some old \<and>
         data ''new_password'' = Some new"
  then show "get_patch_fields e data = password_patch e old new"
    by (simp add: get_patch_fields_def match_data_password)
next
  assume "data ''email'' = None \<and> (data ''old_password'' = None \<or> data ''new_password'' = None)"
  then show "get_patch_fields e data = generic_patch data"
    by (simp add: get_patch_fields_def match_data_generic)
next
  assume k: "dom data = {''old_password'', ''new_password''}"
  from exact_password_keys[OF k] obtain old new where
    d: "data ''email'' = None" "data ''old_password'' = Some old"
       "data ''new_password'' = Some new"
    by blast
  have m: "match_data data = PasswordCase old new" using d by (rule match_data_password)
  have g: "get_patch_fields e data = password_patch e old new"
    by (simp add: get_patch_fields_def m)
  have "password_patch e old new \<noteq> generic_patch data"
    unfolding generic_patch_password_keys[OF k] password_patch_cases
    by (simp split: sum.splits)
  with d m g show "\<exists>old new. data ''old_password'' = Some old \<and>
           data ''new_password'' = Some new \<and>
           match_data data = PasswordCase old new \<and>
           get_patch_fields e data = password_patch e old new \<and>
           get_patch_fields e data \<noteq> generic_patch data" by simp
qed

text \<open>The theorem at a payload with exactly the two password keys.\<close>

theorem dispatch_order_witness:
  "match_data [''old_password'' \<mapsto> PStr ''abc'', ''new_password'' \<mapsto> PStr ''xyz''] =
     PasswordCase (PStr ''abc'') (PStr ''xyz'')
   \<and> get_patch_fields sample_env
       [''old_password'' \<mapsto> PStr ''abc'', ''new_password'' \<mapsto> PStr ''xyz''] =
     password_patch sample_env (PStr ''abc'') (PStr ''xyz'')
   \<and> get_patch_fields sample_env
       [''old_password'' \<mapsto> PStr ''abc'', ''new_password'' \<mapsto> PStr ''xyz''] \<noteq>
     generic_patch [''old_password'' \<mapsto> PStr ''abc'', ''new_password'' \<mapsto> PStr ''xyz'']"
proof -
  let ?d = "[''old_password'' \<mapsto> PStr ''abc'', ''new_password'' \<mapsto> PStr ''xyz'']"
  have k: "dom ?d = {''old_password'', ''new_password''}" by auto
  from dispatch_order[where data = ?d and e = sample_env] k obtain old new where
    o: "?d ''old_password'' = Some old" "?d ''new_password'' = Some new"
    and r: "match_data ?d = PasswordCase old new"
      "get_patch_fields sample_env ?d = password_patch sample_env old new"
      "get_patch_fields sample_env ?d \<noteq> generic_patch ?d"
    by blast
  from o have "old = PStr ''abc''" "new = PStr ''xyz''" by simp_all
  with r show ?thesis by simp
qed

text \<open>
  Claim C8. The empty payload resolves to the empty dictionary. In the generic case an
  item of the output is the \<open>full_name\<close> of the payload, and its value is not
  \<open>Unset\<close>; a payload without \<open>full_name\<close> gives the empty dictionary.
\<close>

theorem generic_patch_output:
  "get_patch_fields e Map.empty = Inr Map.empty
   \<and> (match_data data = GenericCase \<and> get_patch_fields e data = Inr out \<longrightarrow>
        (\<forall>k v. out k = Some v \<longrightarrow> v \<noteq> Unset \<and> k = ''full_name'' \<and> data k = Some v)
        \<and> (data ''full_name'' = None \<longrightarrow> out = Map.empty))"
proof
  have "match_data Map.empty = GenericCase" by (simp add: match_data_def)
  then show "get_patch_fields e Map.empty = Inr Map.empty"
    by (simp add: get_patch_fields_def generic_patch_cases)
next
  show "match_data data = GenericCase \<and> get_patch_fields e data = Inr out \<longrightarrow>
        (\<forall>k v. out k = Some v \<longrightarrow> v \<noteq> Unset \<and> k = ''full_name'' \<and> data k = Some v)
        \<and> (data ''full_name'' = None \<longrightarrow> out = Map.empty)"
  proof
    assume a: "match_data data = GenericCase \<and> get_patch_fields e data = Inr out"
    then have "generic_patch data = Inr out" by (auto simp: get_patch_fields_def)
    then have out: "out = (case data ''full_name'' of
               None \<Rightarrow> Map.empty
             | Some v \<Rightarrow> if v = Unset then Map.empty else [''full_name'' \<mapsto> v])"
      by (simp add: generic_patch_cases split: if_splits)
    show "(\<forall>k v. out k = Some v \<longrightarrow> v \<noteq> Unset \<and> k = ''full_name'' \<and> data k = Some v)
        \<and> (data ''full_name'' = None \<longrightarrow> out = Map.empty)"
      unfolding out by (auto split: option.splits if_splits)
  qed
qed

text \<open>The theorem at a payload that sets the name, and at the empty payload.\<close>

theorem generic_patch_output_witness:
  "match_data [''full_name'' \<mapsto> PStr ''Ann''] = GenericCase
   \<and> get_patch_fields sample_env [''full_name'' \<mapsto> PStr ''Ann''] =
       Inr [''full_name'' \<mapsto> PStr ''Ann'']
   \<and> PStr ''Ann'' \<noteq> Unset
   \<and> get_patch_fields sample_env Map.empty = Inr Map.empty"
proof -
  let ?d = "[''full_name'' \<mapsto> PStr ''Ann'']"
  have m: "match_data ?d = GenericCase"
    by (simp add: match_data_def)
  have r: "get_patch_fields sample_env ?d = Inr ?d"
    by (simp add: get_patch_fields_def m generic_patch_def PatchUser_init_def vars_PatchUser_def
        not_unset_items_def fun_eq_iff)
  have l: "?d ''full_name'' = Some (PStr ''Ann'')" by simp
  note t = generic_patch_output[where data = ?d and e = sample_env and out = ?d]
  from t have "get_patch_fields sample_env Map.empty = Inr Map.empty" by blast
  moreover from t m r l have "PStr ''Ann'' \<noteq> Unset" by blast
  ultimately show ?thesis using m r by blast
qed


section \<open>Login and authentication\<close>

text \<open>
  Claim C3. A login with an email that matches no stored user and a login with a stored
  user's email and a password that does not match both fail with
  \<open>UnauthorizedException\<close>, with the same message "Invalid credentials" and the same
  (absent) headers. The two internal reasons, "User not found" and "Password is
  incorrect", survive only as the cause kept inside the exception.
\<close>

theorem login_anti_enumeration:
  assumes "query_first_by_email e em1 = Inr None"
    and "query_first_by_email e em2 = Inr (Some u)"
    and "check_password e u pw2 = Inr False"
  shows "login e em1 pw1 =
           Inl (UnauthorizedException (Message ''Invalid credentials'') None
                  (Some (UnauthorizedException (Message ''User not found'') None None)))
    \<and> login e em2 pw2 =
           Inl (UnauthorizedException (Message ''Invalid credentials'') None
                  (Some (UnauthorizedException (Message ''Password is incorrect'') None None)))
    \<and> map_sum exn_message (\<lambda>r. r) (login e em1 pw1) =
        Inl (Some (Message ''Invalid credentials''))
    \<and> map_sum exn_message (\<lambda>r. r) (login e em2 pw2) =
        map_sum exn_message (\<lambda>r. r) (login e em1 pw1)
    \<and> map_sum exn_headers (\<lambda>r. r) (login e em2 pw2) =
        map_sum exn_headers (\<lambda>r. r) (login e em1 pw1)"
proof -
  have 1: "login e em1 pw1 =
           Inl (UnauthorizedException (Message ''Invalid credentials'') None
                  (Some (UnauthorizedException (Message ''User not found'') None None)))"
    using assms(1) by (simp add: login_def login_try_def)
  have 2: "login e em2 pw2 =
           Inl (UnauthorizedException (Message ''Invalid credentials'') None
                  (Some (UnauthorizedException (Message ''Password is incorrect'') None None)))"
    using assms(2,3) by (simp add: login_def login_try_def)
  show ?thesis unfolding 1 2 by simp
qed

text \<open>The theorem at the two logins of the spec's example.\<close>

theorem login_anti_enumeration_witness:
  "map_sum exn_message (\<lambda>r. r)
     (login sample_env ''missing@example.com'' (PStr ''whatever'')) =
     Inl (Some (Message ''Invalid credentials''))
   \<and> map_sum exn_message (\<lambda>r. r)
       (login sample_env ''real@example.com'' (PStr ''wrongpass'')) =
     map_sum exn_message (\<lambda>r. r)
       (login sample_env ''missing@example.com'' (PStr ''whatever''))"
proof -
  have a: "query_first_by_email sample_env ''missing@example.com'' = Inr None"
    by (simp add: sample_env_def)
  have b: "query_first_by_email sample_env ''real@example.com'' = Inr (Some sample_user)"
    by (simp add: sample_env_def)
  have c: "check_password sample_env sample_user (PStr ''wrongpass'') = Inr False"
    by (simp add: check_password_def encode_utf8_def sample_env_def sample_user_def)
  show ?thesis
    using login_anti_enumeration[OF a b c, of "PStr ''whatever''"] by blast
qed

text \<open>
  Claim C5. \<open>authenticate\<close> returns a user exactly when the header is \<open>Bearer\<close>, one
  space, and a token without a space, the token verifies to a user id and the lookup of
  that id returns the user. In every other case (another shape of header, a token that
  does not verify, a lookup that fails) it fails with \<open>UnauthorizedException\<close>, message
  "Invalid Token", and the header \<open>WWW-Authenticate: bearer\<close>.
\<close>

theorem authenticate_bearer_only:
  "(authenticate e h = Inr u \<longleftrightarrow>
      (\<exists>tok uid. h = ''Bearer '' @ tok \<and> CHR '' '' \<notin> set tok \<and>
         verify_token e tok = Inr uid \<and> get_one e uid = Inr u))
   \<and> ((\<forall>u'. authenticate e h \<noteq> Inr u') \<longrightarrow>
      (\<exists>c. authenticate e h =
         Inl (UnauthorizedException (Message ''Invalid Token'')
                (Some [(''WWW-Authenticate'', ''bearer'')]) (Some c))))"
proof -
  have "authenticate e h = Inr u \<longleftrightarrow> authenticate_try e h = Inr u"
    by (simp add: authenticate_def split: sum.splits)
  then show ?thesis
    by (auto simp: authenticate_try_Inr authenticate_def split: sum.splits)
qed

text \<open>
  The theorem at a good header, and at a header with two spaces after the scheme, a
  token that does not verify, and a lower-case scheme.
\<close>

theorem authenticate_bearer_only_witness:
  "authenticate sample_env ''Bearer token-7'' = Inr sample_user
   \<and> authenticate sample_env ''Bearer  token-7'' =
       Inl (UnauthorizedException (Message ''Invalid Token'')
              (Some [(''WWW-Authenticate'', ''bearer'')])
              (Some (UnauthorizedException (Message ''Invalid token'') None None)))
   \<and> authenticate sample_env ''Bearer token-8'' =
       Inl (UnauthorizedException (Message ''Invalid Token'')
              (Some [(''WWW-Authenticate'', ''bearer'')])
              (Some (LibraryError ''InvalidTokenError'')))
   \<and> authenticate sample_env ''bearer token-7'' =
       Inl (UnauthorizedException (Message ''Invalid Token'')
              (Some [(''WWW-Authenticate'', ''bearer'')])
              (Some (UnauthorizedException (Message ''Invalid token'') None None)))"
proof -
  have v: "verify_token sample_env ''token-7'' = Inr 7" "get_one sample_env 7 = Inr sample_user"
    by (simp_all add: sample_env_def)
  have s: "''Bearer token-7'' = ''Bearer '' @ ''token-7''" "CHR '' '' \<notin> set ''token-7''"
    by simp_all
  have 1: "authenticate sample_env ''Bearer token-7'' = Inr sample_user"
    using authenticate_bearer_only[of sample_env "''Bearer token-7''" sample_user] v s by blast
  have 2: "authenticate sample_env ''Bearer  token-7'' =
       Inl (UnauthorizedException (Message ''Invalid Token'')
              (Some [(''WWW-Authenticate'', ''bearer'')])
              (Some (UnauthorizedException (Message ''Invalid token'') None None)))"
    by (simp add: authenticate_def authenticate_try_def)
  have 3: "authenticate sample_env ''Bearer token-8'' =
       Inl (UnauthorizedException (Message ''Invalid Token'')
              (Some [(''WWW-Authenticate'', ''bearer'')])
              (Some (LibraryError ''InvalidTokenError'')))"
    by (simp add: authenticate_def authenticate_try_def sample_env_def)
  have 4: "authenticate sample_env ''bearer token-7'' =
       Inl (UnauthorizedException (Message ''Invalid Token'')
              (Some [(''WWW-Authenticate'', ''bearer'')])
              (Some (UnauthorizedException (Message ''Invalid token'') None None)))"
    by (simp add: authenticate_def authenticate_try_def)
  show ?thesis using 1 2 3 4 by simp
qed


section \<open>UserResponse\<close>

text \<open>
  Claim C10. Building a \<open>UserResponse\<close> runs the email validator on the given email
  again: when the validator raises, the construction fails with
  \<open>UnprocessableContentException\<close> carrying that exception, and no response is built;
  when it returns, the response holds the normalized address it returned.
\<close>

theorem user_response_revalidates_email:
  "(\<forall>exc. validate_email e (PStr em) = Inl exc \<longrightarrow>
      UserResponse_init e em fn r = Inl (UnprocessableContentException (Exc exc) (Some exc)))
   \<and> (\<forall>n. validate_email e (PStr em) = Inr n \<longrightarrow>
      UserResponse_init e em fn r =
        Inr \<lparr>UserResponse.email = n, UserResponse.full_name = fn, UserResponse.role = r\<rparr>)"
  by (simp add: UserResponse_init_def)

text \<open>The theorem at a record with a malformed email and at the sample user's record.\<close>

theorem user_response_revalidates_email_witness:
  "UserResponse_init sample_env ''not-an-email'' ''Real User'' ''user'' =
     Inl (UnprocessableContentException (Exc (LibraryError ''EmailNotValidError''))
            (Some (LibraryError ''EmailNotValidError'')))
   \<and> UserResponse_init sample_env ''real@example.com'' ''Real User'' ''user'' =
     Inr \<lparr>UserResponse.email = ''real@example.com'', UserResponse.full_name = ''Real User'',
          UserResponse.role = ''user''\<rparr>"
proof -
  have a: "validate_email sample_env (PStr ''not-an-email'') =
      Inl (LibraryError ''EmailNotValidError'')"
    by (simp add: sample_env_def)
  have b: "validate_email sample_env (PStr ''real@example.com'') = Inr ''real@example.com''"
    by (simp add: sample_env_def)
  show ?thesis
    using user_response_revalidates_email
        [of sample_env "''not-an-email''" "''Real User''" "''user''"]
      user_response_revalidates_email
        [of sample_env "''real@example.com''" "''Real User''" "''user''"]
      a b by blast
qed

end
